theory Spec2Isabelle
  imports Complex_Main
begin

section \<open>JavaScript numbers as the playback control bar uses them\<close>

text \<open>
  A JavaScript number is a binary64 value: \<open>NaN\<close>, one of the two infinities, or
  finite. A finite number is modelled by the real number it denotes, and negative zero
  is identified with zero (the code below prints both as \<open>0\<close> and compares both
  alike). The tests and comparisons below depend on that real number alone. An
  operation that rounds its result is given a value in the model only where the
  rounding cannot show in what the component does with the result, and no value
  (\<open>None\<close>) elsewhere.
\<close>

datatype jsnum = NaN | PosInf | NegInf | Fin real

text \<open>
  The finite binary64 values: an integer significand of magnitude under \<open>2^53\<close> times
  a power of two with an exponent from \<open>-1074\<close> to \<open>971\<close> (the subnormal values
  have the least exponent). A binary64 value nearest to a real number is what an
  operation that rounds to nearest returns for that exact result, whichever way a tie
  is broken.
\<close>

definition binary64 :: "real \<Rightarrow> bool" where
  "binary64 x = (\<exists>m e :: int. x = of_int m * 2 powi e \<and> \<bar>m\<bar> < 2 ^ 53 \<and> - 1074 \<le> e \<and> e \<le> 971)"

definition nearest64 :: "real \<Rightarrow> real \<Rightarrow> bool" where
  "nearest64 x z = (binary64 z \<and> (\<forall>y. binary64 y \<longrightarrow> \<bar>z - x\<bar> \<le> \<bar>y - x\<bar>))"

text \<open>
  The result of \<open>Math.floor\<close>: \<open>NaN\<close>, an infinity, or an integer.
\<close>

datatype jsint = INaN | IPosInf | INegInf | IFin int

text \<open>\<open>!x\<close> on a number: true for \<open>0\<close> and \<open>NaN\<close>.\<close>

fun js_falsy :: "jsnum \<Rightarrow> bool" where
  "js_falsy NaN = True"
| "js_falsy (Fin r) = (r = 0)"
| "js_falsy PosInf = False"
| "js_falsy NegInf = False"


text \<open>\<open>x > k\<close> for a finite constant \<open>k\<close>: every comparison with \<open>NaN\<close> is false.\<close>

fun js_greater :: "jsnum \<Rightarrow> real \<Rightarrow> bool" where
  "js_greater (Fin r) k = (k < r)"
| "js_greater PosInf k = True"
| "js_greater NegInf k = False"
| "js_greater NaN k = False"

text \<open>
  \<open>x / 60\<close>. The quotient of two binary64 values is a binary64 value nearest to the
  exact quotient, and the component takes nothing of it but its floor (line 36). For
  \<open>0 \<le> x \<le> 2^53\<close> every binary64 value nearest to the exact quotient has the floor of
  the exact quotient (\<open>floor_nearest_quotient\<close> below), so there the model keeps the
  exact quotient. For any other finite \<open>x\<close> the rounding can show in the floor (the
  quotient of a large \<open>x\<close> can round up to an integer, that of a negative \<open>x\<close> next to
  zero rounds to zero), and the model gives no value.
\<close>

fun js_divide_60 :: "jsnum \<Rightarrow> jsnum option" where
  "js_divide_60 (Fin r) = (if 0 \<le> r \<and> r \<le> 2 ^ 53 then Some (Fin (r / 60)) else None)"
| "js_divide_60 PosInf = Some PosInf"
| "js_divide_60 NegInf = Some NegInf"
| "js_divide_60 NaN = Some NaN"


fun Math_floor :: "jsnum \<Rightarrow> jsint" where
  "Math_floor (Fin r) = IFin \<lfloor>r\<rfloor>"
| "Math_floor PosInf = IPosInf"
| "Math_floor NegInf = INegInf"
| "Math_floor NaN = INaN"






section \<open>The playback control bar (MusicPlayer)\<close>


text \<open>
  Modelled from the spec: the \<open>Track\<close> type is declared in \<open>services/musicService\<close>,
  which is not among the sources. The spec gives a content record an identifier, a
  title, subtitle fields, a duration, an artwork URL; the component's own demo record
  (lines 42 to 50) has the fields below. The duration is \<open>None\<close> when the field holds
  no number (\<open>undefined\<close>).
\<close>

record Track =
  track_id :: string
  title :: string
  artist :: string
  album :: string
  cover :: string
  audioUrl :: string
  duration :: "jsnum option"

text \<open>\<open>currentTrack?.duration\<close>: the track is optional, and so is what it holds.\<close>

definition nominalDuration :: "Track option \<Rightarrow> jsnum option" where
  "nominalDuration currentTrack = (case currentTrack of None \<Rightarrow> None | Some t \<Rightarrow> duration t)"

text \<open>
  Line 56: \<open>duration > 0 ? duration : (currentTrack?.duration || 0)\<close>. The operator
  \<open>||\<close> yields its right operand when the left one is \<open>undefined\<close>, \<open>0\<close> or \<open>NaN\<close>.
\<close>

definition effectiveDuration :: "jsnum \<Rightarrow> Track option \<Rightarrow> jsnum" where
  "effectiveDuration live currentTrack =
     (if js_greater live 0 then live
      else (case nominalDuration currentTrack of
              None \<Rightarrow> Fin 0
            | Some d \<Rightarrow> if js_falsy d then Fin 0 else d))"

text \<open>The progress slider's \<open>disabled={effectiveDuration === 0}\<close>, lines 102 and 236.\<close>

definition seekDisabled :: "jsnum \<Rightarrow> Track option \<Rightarrow> bool" where
  "seekDisabled live currentTrack = (effectiveDuration live currentTrack = Fin 0)"

section \<open>The movie detail page (MovieDetail)\<close>

subsection \<open>Data\<close>

text \<open>
  Modelled from the spec: the \<open>Movie\<close> type is declared in \<open>services/movieService\<close>,
  which is not among the sources. The spec's quality variant is a pair of a label and a
  playable URL; the page reads them as \<open>quality\<close> and \<open>url\<close>. Of a movie the handlers
  read the identifier and the list of quality variants, in the order the server
  supplied them; the fields that are only displayed (title, poster, year, ...) are left
  out.
\<close>

record VideoQuality =
  quality :: string
  url :: string

record Movie =
  movie_id :: string
  video_qualities :: "VideoQuality list"

text \<open>Lines 28 to 32; the optional field is renamed, \<open>quality\<close> being taken.\<close>

record RefreshLinkResponse =
  new_url :: string
  message :: string
  response_quality :: "string option"

text \<open>
  The route parameter \<open>movieId\<close> (line 35) and the \<open>useState\<close> cells of lines 37 to 44.
  \<open>isMobile\<close> only picks the layout and is left out. One value of this record is what
  one render of the component sees: every handler created by that render reads the
  fields from it, whatever has been set since.
\<close>

record detail_state =
  movieId :: "string option"
  movie :: "Movie option"
  isLoading :: bool
  error :: "string option"
  selectedQuality :: "string option"
  showPlayer :: bool
  isRefreshing :: bool
  playbackError :: bool

definition initial_state :: "string option \<Rightarrow> detail_state" where
  "initial_state mid =
     \<lparr>movieId = mid, movie = None, isLoading = True, error = None, selectedQuality = None,
      showPlayer = False, isRefreshing = False, playbackError = False\<rparr>"

text \<open>
  What a handler does to the outside: the two requests and the three commands to the
  player handle. Writes to the console are not recorded.
\<close>

datatype effect =
    GetMovieById string bool
  | PostRefreshLink string string
  | PlayerSrc string
  | PlayerLoad
  | PlayerPlay

text \<open>
  What the outside answers. \<open>getMovieById\<close> returns a record or \<open>null\<close>, or throws.
  \<open>axios.post\<close> rejects on a network error and on every status outside 2xx (here with
  the status and the \<open>detail\<close> string of the body, when there is one), and resolves
  with the body otherwise.
\<close>

datatype fetch_result = FetchThrows | FetchReturns "Movie option"

datatype post_result = NetworkError | HttpError nat "string option" | PostOk RefreshLinkResponse

text \<open>A string cell is truthy when it holds a string that is not empty.\<close>

definition truthy :: "string option \<Rightarrow> bool" where
  "truthy x = (case x of None \<Rightarrow> False | Some str \<Rightarrow> str \<noteq> '''')"

text \<open>\<open>video_qualities.find(q => q.quality === label)\<close>: the first variant with that label.\<close>

definition find_quality :: "string \<Rightarrow> Movie \<Rightarrow> VideoQuality option" where
  "find_quality label m = find (\<lambda>q. quality q = label) (video_qualities m)"

text \<open>Line 60: \<open>data.video_qualities[0]?.quality || 'Default'\<close>.\<close>

definition firstQuality :: "Movie \<Rightarrow> string" where
  "firstQuality data =
     (case video_qualities data of
        [] \<Rightarrow> ''Default''
      | q # _ \<Rightarrow> if quality q = '''' then ''Default'' else quality q)"

subsection \<open>Handlers\<close>

text \<open>
  A handler takes the render \<open>c\<close> it was created in, from which it reads, the answers
  of the outside, and the state \<open>s\<close> its setters write to; it returns the state after its
  last setter and the effects in the order they were issued. A handler that runs from
  start to finish with nothing in between is called with \<open>s = c\<close>.
\<close>

text \<open>\<open>fetchMovieData\<close> after \<open>await getMovieById\<close>, lines 56 to 73.\<close>

definition fetchMovieData_settled :: "detail_state \<Rightarrow> fetch_result \<Rightarrow> detail_state \<Rightarrow> detail_state" where
  "fetchMovieData_settled c r s =
     (case r of
        FetchThrows \<Rightarrow> s\<lparr>error := Some ''Failed to load movie details'', isLoading := False\<rparr>
      | FetchReturns None \<Rightarrow> s\<lparr>error := Some ''Movie not found'', isLoading := False\<rparr>
      | FetchReturns (Some data) \<Rightarrow>
          (let s1 = s\<lparr>movie := Some data\<rparr>;
               s2 = (if \<not> truthy (selectedQuality c)
                     then s1\<lparr>selectedQuality := Some (firstQuality data)\<rparr> else s1)
           in s2\<lparr>isLoading := False\<rparr>))"

text \<open>\<open>fetchMovieData\<close>, lines 47 to 74.\<close>

definition fetchMovieData :: "detail_state \<Rightarrow> bool \<Rightarrow> fetch_result \<Rightarrow> detail_state \<Rightarrow> detail_state \<times> effect list" where
  "fetchMovieData c forceRefresh r s =
     (case movieId c of
        None \<Rightarrow> (s\<lparr>error := Some ''Invalid movie ID'', isLoading := False\<rparr>, [])
      | Some mid \<Rightarrow>
          if mid = '''' then (s\<lparr>error := Some ''Invalid movie ID'', isLoading := False\<rparr>, [])
          else (fetchMovieData_settled c r s, [GetMovieById mid forceRefresh]))"

text \<open>
  The effect of lines 76 to 78: when the route parameter changes (and on mount), the
  component renders with the new parameter and that render calls \<open>fetchMovieData()\<close>.
\<close>

definition movieIdEffect :: "string option \<Rightarrow> fetch_result \<Rightarrow> detail_state \<Rightarrow> detail_state \<times> effect list" where
  "movieIdEffect newId r s = (let c = s\<lparr>movieId := newId\<rparr> in fetchMovieData c False r c)"

text \<open>\<open>handleVideoError\<close>, lines 84 to 89.\<close>

definition handleVideoError :: "detail_state \<Rightarrow> detail_state \<Rightarrow> detail_state" where
  "handleVideoError c s =
     (if movie c = None \<or> \<not> truthy (selectedQuality c) \<or> isRefreshing c then s
      else s\<lparr>playbackError := True\<rparr>)"

text \<open>
  \<open>handleRefreshLink\<close> up to its first \<open>await\<close>, lines 92 to 102: \<open>None\<close> when the guard
  returns, otherwise the state after the two setters and the movie identifier and
  quality label the request is posted for.
\<close>

definition handleRefreshLink_begin :: "detail_state \<Rightarrow> detail_state \<Rightarrow> (detail_state \<times> string \<times> string) option" where
  "handleRefreshLink_begin c s =
     (case movie c of
        None \<Rightarrow> None
      | Some m \<Rightarrow>
          (case selectedQuality c of
             None \<Rightarrow> None
           | Some sq \<Rightarrow>
               if sq = '''' \<or> isRefreshing c then None
               else Some (s\<lparr>isRefreshing := True, playbackError := False\<rparr>, movie_id m, sq)))"

text \<open>
  \<open>handleRefreshLink\<close> from the answer of the post on, lines 104 to 134, for the
  identifier \<open>mid\<close> and the label \<open>sq\<close> of its render. \<open>player.play()\<close> has its rejection
  caught and logged (line 117), so its outcome changes nothing.
\<close>

definition handleRefreshLink_settled :: "string \<Rightarrow> string \<Rightarrow> post_result \<Rightarrow> fetch_result \<Rightarrow> bool \<Rightarrow> detail_state \<Rightarrow> detail_state \<times> effect list" where
  "handleRefreshLink_settled mid sq pr fr hasPlayer s =
     (case pr of
        NetworkError \<Rightarrow> (s\<lparr>playbackError := True, isRefreshing := False\<rparr>, [])
      | HttpError status detail \<Rightarrow> (s\<lparr>playbackError := True, isRefreshing := False\<rparr>, [])
      | PostOk res \<Rightarrow>
          if new_url res = '''' then (s\<lparr>isRefreshing := False\<rparr>, [])
          else
            (case fr of
               FetchThrows \<Rightarrow>
                 (s\<lparr>playbackError := True, isRefreshing := False\<rparr>, [GetMovieById mid True])
             | FetchReturns freshMovie \<Rightarrow>
                 (let s1 = s\<lparr>movie := freshMovie, playbackError := False\<rparr>;
                      freshQualityData =
                        (case freshMovie of None \<Rightarrow> None | Some fm \<Rightarrow> find_quality sq fm)
                  in case freshQualityData of
                       None \<Rightarrow> (s1\<lparr>isRefreshing := False\<rparr>, [GetMovieById mid True])
                     | Some fq \<Rightarrow>
                         if hasPlayer
                         then (s1\<lparr>isRefreshing := False\<rparr>,
                               [GetMovieById mid True, PlayerSrc (url fq), PlayerLoad, PlayerPlay])
                         else (s1\<lparr>isRefreshing := False\<rparr>, [GetMovieById mid True]))))"

text \<open>\<open>handleRefreshLink\<close> run from start to finish in the render \<open>s\<close>, lines 91 to 135.\<close>

definition handleRefreshLink :: "detail_state \<Rightarrow> post_result \<Rightarrow> fetch_result \<Rightarrow> bool \<Rightarrow> detail_state \<times> effect list" where
  "handleRefreshLink s pr fr hasPlayer =
     (case handleRefreshLink_begin s s of
        None \<Rightarrow> (s, [])
      | Some (s1, mid, sq) \<Rightarrow>
          (let (s2, es) = handleRefreshLink_settled mid sq pr fr hasPlayer s1
           in (s2, PostRefreshLink mid sq # es)))"

text \<open>\<open>getSelectedQualityUrl\<close>, lines 137 to 145: the \<open>src\<close> the rendered player is given.\<close>

definition getSelectedQualityUrl :: "detail_state \<Rightarrow> string" where
  "getSelectedQualityUrl s =
     (case movie s of
        None \<Rightarrow> ''''
      | Some m \<Rightarrow>
          (case selectedQuality s of
             None \<Rightarrow> ''''
           | Some sq \<Rightarrow>
               if sq = '''' then ''''
               else (case find_quality sq m of None \<Rightarrow> '''' | Some q \<Rightarrow> url q)))"

text \<open>
  \<open>handleQualitySelect\<close>, lines 147 to 168, in its three stretches. The first runs to
  \<open>await fetchMovieData(true)\<close> (lines 148 to 155): \<open>None\<close> when the label is not in
  the record of the render, otherwise the state after the two setters and the variant
  found.
\<close>

definition handleQualitySelect_begin :: "detail_state \<Rightarrow> string \<Rightarrow> detail_state \<Rightarrow> (detail_state \<times> VideoQuality) option" where
  "handleQualitySelect_begin c label s =
     (case (case movie c of None \<Rightarrow> None | Some m \<Rightarrow> find_quality label m) of
        None \<Rightarrow> None
      | Some qualityData \<Rightarrow>
          Some (s\<lparr>selectedQuality := Some label, playbackError := False\<rparr>, qualityData))"

text \<open>
  The second runs from the fetch to \<open>await player.play()\<close> (lines 155 to 161, or to the
  end at line 166). \<open>hasPlayer\<close> is whether \<open>videoPlayerRef.current?.player\<close> holds a
  handle at that moment. The source given to the player is the URL of \<open>qualityData\<close>,
  the variant found before the fetch.
\<close>

definition handleQualitySelect_fetched :: "detail_state \<Rightarrow> VideoQuality \<Rightarrow> fetch_result \<Rightarrow> bool \<Rightarrow> detail_state \<Rightarrow> detail_state \<times> effect list" where
  "handleQualitySelect_fetched c qualityData r hasPlayer s =
     (let (s2, es) = fetchMovieData c True r s
      in if hasPlayer
         then (s2\<lparr>showPlayer := True\<rparr>, es @ [PlayerSrc (url qualityData), PlayerLoad, PlayerPlay])
         else (s2\<lparr>showPlayer := True\<rparr>, es))"

text \<open>
  The third is the outcome of \<open>player.play()\<close> (lines 161 to 164): when the promise
  rejects, the handler calls the \<open>handleVideoError\<close> of its own render.
\<close>

definition handleQualitySelect_played :: "detail_state \<Rightarrow> bool \<Rightarrow> detail_state \<Rightarrow> detail_state" where
  "handleQualitySelect_played c playResolves s = (if playResolves then s else handleVideoError c s)"

text \<open>\<open>handleQualitySelect\<close> run from start to finish in the render \<open>s\<close>.\<close>

definition handleQualitySelect :: "detail_state \<Rightarrow> string \<Rightarrow> fetch_result \<Rightarrow> bool \<Rightarrow> bool \<Rightarrow> detail_state \<times> effect list" where
  "handleQualitySelect s label r hasPlayer playResolves =
     (case handleQualitySelect_begin s label s of
        None \<Rightarrow> (s, [])
      | Some (s1, qualityData) \<Rightarrow>
          (let (s3, es) = handleQualitySelect_fetched s qualityData r hasPlayer s1
           in (if hasPlayer then handleQualitySelect_played s playResolves s3 else s3, es)))"

text \<open>\<open>handleClosePlayer\<close>, lines 170 to 172, and the dialog's \<open>onOpenChange={setShowPlayer}\<close>.\<close>

definition handleClosePlayer :: "detail_state \<Rightarrow> detail_state" where
  "handleClosePlayer s = s\<lparr>showPlayer := False\<rparr>"

definition setShowPlayer :: "bool \<Rightarrow> detail_state \<Rightarrow> detail_state" where
  "setShowPlayer b s = s\<lparr>showPlayer := b\<rparr>"

text \<open>
  Lines 174, 190 and 280 to 290: the refresh button is part of the page when the page
  is neither loading nor in its not-found state and \<open>playbackError\<close> is set; it is
  disabled while \<open>isRefreshing\<close>.
\<close>

definition refreshButtonShown :: "detail_state \<Rightarrow> bool" where
  "refreshButtonShown s = (\<not> isLoading s \<and> error s = None \<and> movie s \<noteq> None \<and> playbackError s)"

definition refreshButtonDisabled :: "detail_state \<Rightarrow> bool" where
  "refreshButtonDisabled s = isRefreshing s"

subsection \<open>The page as a transition system\<close>

text \<open>
  The page between two events: the state the next render will see, and the identifier
  and label of a refresh whose request has been posted and not yet answered. The
  refresh is taken in its two halves, so that the state while it is in flight is a
  state of the system. Every other handler is taken from its start to its finish: it
  runs in the render of the state it starts in, and no other event falls between its
  steps.
\<close>

record page =
  ui :: detail_state
  refreshInFlight :: "(string \<times> string) option"

datatype event =
    MovieIdChanges "string option" fetch_result
  | PlayerReportsError
  | RefreshClicked
  | RefreshSettles post_result fetch_result bool
  | QualityPicked string fetch_result bool bool
  | PlayerClosed
  | DialogOpenChanges bool

fun step :: "event \<Rightarrow> page \<Rightarrow> page" where
  "step (MovieIdChanges newId r) p = p\<lparr>ui := fst (movieIdEffect newId r (ui p))\<rparr>"
| "step PlayerReportsError p = p\<lparr>ui := handleVideoError (ui p) (ui p)\<rparr>"
| "step RefreshClicked p =
     (case handleRefreshLink_begin (ui p) (ui p) of
        None \<Rightarrow> p
      | Some (s1, mid, sq) \<Rightarrow> \<lparr>ui = s1, refreshInFlight = Some (mid, sq)\<rparr>)"
| "step (RefreshSettles pr fr hasPlayer) p =
     (case refreshInFlight p of
        None \<Rightarrow> p
      | Some (mid, sq) \<Rightarrow>
          \<lparr>ui = fst (handleRefreshLink_settled mid sq pr fr hasPlayer (ui p)),
           refreshInFlight = None\<rparr>)"
| "step (QualityPicked label r hasPlayer playResolves) p =
     p\<lparr>ui := fst (handleQualitySelect (ui p) label r hasPlayer playResolves)\<rparr>"
| "step PlayerClosed p = p\<lparr>ui := handleClosePlayer (ui p)\<rparr>"
| "step (DialogOpenChanges b) p = p\<lparr>ui := setShowPlayer b (ui p)\<rparr>"

fun run :: "event list \<Rightarrow> page \<Rightarrow> page" where
  "run [] p = p"
| "run (e # es) p = run es (step e p)"

text \<open>The page as mounted; its first event is the effect of the route parameter.\<close>

definition mounted :: page where
  "mounted = \<lparr>ui = initial_state None, refreshInFlight = None\<rparr>"

text \<open>What the transition system keeps: the two flags are not both set, and
  \<open>isRefreshing\<close> is set exactly while a refresh is in flight.\<close>

definition flags_ok :: "page \<Rightarrow> bool" where
  "flags_ok p =
     (\<not> (isRefreshing (ui p) \<and> playbackError (ui p))
      \<and> (isRefreshing (ui p) = (refreshInFlight p \<noteq> None)))"

subsection \<open>Quality picks that overlap other events\<close>

text \<open>
  \<open>handleQualitySelect\<close> is an \<open>async\<close> function: at each \<open>await\<close> it is suspended and
  other handlers run. When it goes on it is still the closure of the render that
  created it, and reads \<open>movie\<close>, \<open>selectedQuality\<close> and \<open>isRefreshing\<close> as they were
  in that render (the \<open>const\<close>s of lines 37 to 44), while its setters write to the
  state of the moment. A suspended pick is kept with its render: waiting for the
  fetch (with the variant it found), or waiting for \<open>player.play()\<close>.
\<close>

datatype suspended = AwaitingFetch detail_state VideoQuality | AwaitingPlay detail_state

record overlapped =
  base :: page
  picks :: "suspended list"

datatype overlap_event =
    Whole event
  | PickBegins string
  | PickFetched nat fetch_result bool
  | PickPlayed nat bool

definition drop_nth :: "nat \<Rightarrow> 'a list \<Rightarrow> 'a list" where
  "drop_nth n xs = take n xs @ drop (Suc n) xs"

text \<open>
  \<open>Whole e\<close> is an event of the transition system above. \<open>PickBegins\<close> runs a pick to
  its first \<open>await\<close> in the render of the moment and suspends it; \<open>PickFetched n\<close> and
  \<open>PickPlayed n\<close> answer the \<open>n\<close>-th suspended pick and run it to its next \<open>await\<close> or
  to its end. An answer no suspended pick waits for changes nothing.
\<close>

fun overlap_step :: "overlap_event \<Rightarrow> overlapped \<Rightarrow> overlapped" where
  "overlap_step (Whole e) q = q\<lparr>base := step e (base q)\<rparr>"
| "overlap_step (PickBegins label) q =
     (case handleQualitySelect_begin (ui (base q)) label (ui (base q)) of
        None \<Rightarrow> q
      | Some (s1, qualityData) \<Rightarrow>
          \<lparr>base = (base q)\<lparr>ui := s1\<rparr>,
           picks = picks q @ [AwaitingFetch (ui (base q)) qualityData]\<rparr>)"
| "overlap_step (PickFetched n r hasPlayer) q =
     (if n < length (picks q)
      then (case picks q ! n of
              AwaitingFetch c qualityData \<Rightarrow>
                \<lparr>base = (base q)\<lparr>ui := fst (handleQualitySelect_fetched c qualityData r hasPlayer (ui (base q)))\<rparr>,
                 picks = (if hasPlayer then (picks q)[n := AwaitingPlay c] else drop_nth n (picks q))\<rparr>
            | AwaitingPlay c \<Rightarrow> q)
      else q)"
| "overlap_step (PickPlayed n playResolves) q =
     (if n < length (picks q)
      then (case picks q ! n of
              AwaitingPlay c \<Rightarrow>
                \<lparr>base = (base q)\<lparr>ui := handleQualitySelect_played c playResolves (ui (base q))\<rparr>,
                 picks = drop_nth n (picks q)\<rparr>
            | AwaitingFetch c qualityData \<Rightarrow> q)
      else q)"

fun overlap_run :: "overlap_event list \<Rightarrow> overlapped \<Rightarrow> overlapped" where
  "overlap_run [] q = q"
| "overlap_run (e # es) q = overlap_run es (overlap_step e q)"

section \<open>Reading a printed time\<close>




section \<open>Example inputs\<close>

text \<open>The record of the spec's examples, and later answers of the server for it.\<close>

definition movie_v1 :: Movie where
  "movie_v1 =
     \<lparr>movie_id = ''m1'',
      video_qualities = [\<lparr>quality = ''720p'', url = ''a''\<rparr>, \<lparr>quality = ''1080p'', url = ''b''\<rparr>]\<rparr>"

definition movie_v2 :: Movie where
  "movie_v2 =
     \<lparr>movie_id = ''m1'',
      video_qualities = [\<lparr>quality = ''720p'', url = ''a2''\<rparr>, \<lparr>quality = ''1080p'', url = ''x''\<rparr>]\<rparr>"

definition movie_without_1080p :: Movie where
  "movie_without_1080p =
     \<lparr>movie_id = ''m1'', video_qualities = [\<lparr>quality = ''720p'', url = ''a2''\<rparr>]\<rparr>"

definition movie_other :: Movie where
  "movie_other =
     \<lparr>movie_id = ''m2'', video_qualities = [\<lparr>quality = ''480p'', url = ''c''\<rparr>]\<rparr>"


text \<open>The page showing \<open>movie_v1\<close> after its first load.\<close>

definition loaded :: detail_state where
  "loaded =
     \<lparr>movieId = Some ''m1'', movie = Some movie_v1, isLoading = False, error = None,
      selectedQuality = Some ''720p'', showPlayer = False, isRefreshing = False,
      playbackError = False\<rparr>"

text \<open>The same page with 1080p playing in the open player, and after the player failed.\<close>

definition watching :: detail_state where
  "watching = loaded\<lparr>selectedQuality := Some ''1080p'', showPlayer := True\<rparr>"

definition failed :: detail_state where
  "failed = watching\<lparr>playbackError := True\<rparr>"

definition refreshing :: detail_state where
  "refreshing = watching\<lparr>isRefreshing := True\<rparr>"

definition refresh_ok :: post_result where
  "refresh_ok = PostOk \<lparr>new_url = ''x'', message = ''refreshed'', response_quality = None\<rparr>"

definition track_nan :: Track where
  "track_nan =
     \<lparr>track_id = ''t1'', title = ''Song'', artist = ''Artist'', album = ''Album'',
      cover = ''cover.png'', audioUrl = ''song.mp3'', duration = Some NaN\<rparr>"

definition track_180 :: Track where
  "track_180 = track_nan\<lparr>duration := Some (Fin 180)\<rparr>"

section \<open>What the handlers keep\<close>

lemma fetchMovieData_flags:
  "showPlayer (fst (fetchMovieData c force r s)) = showPlayer s"
  "isRefreshing (fst (fetchMovieData c force r s)) = isRefreshing s"
  "playbackError (fst (fetchMovieData c force r s)) = playbackError s"
  by (simp_all add: fetchMovieData_def fetchMovieData_settled_def Let_def
      split: option.splits fetch_result.splits)

lemma fetchMovieData_selectedQuality:
  "truthy (selectedQuality c) \<Longrightarrow>
     selectedQuality (fst (fetchMovieData c force r s)) = selectedQuality s"
  by (simp add: fetchMovieData_def fetchMovieData_settled_def Let_def
      split: option.splits fetch_result.splits)

lemma fetchMovieData_effects:
  "snd (fetchMovieData c force r s) =
     (case movieId c of None \<Rightarrow> [] | Some mid \<Rightarrow> if mid = '''' then [] else [GetMovieById mid force])"
  by (simp add: fetchMovieData_def split: option.splits)

lemma handleVideoError_flags:
  "isRefreshing (handleVideoError c s) = isRefreshing s"
  "showPlayer (handleVideoError c s) = showPlayer s"
  "isRefreshing c \<Longrightarrow> handleVideoError c s = s"
  "playbackError (handleVideoError c s) \<Longrightarrow> playbackError s \<or> \<not> isRefreshing c"
  by (simp_all add: handleVideoError_def split: if_splits)

lemma handleRefreshLink_begin_Some:
  "handleRefreshLink_begin c s = Some (s1, mid, sq) \<Longrightarrow>
     s1 = s\<lparr>isRefreshing := True, playbackError := False\<rparr> \<and> \<not> isRefreshing c
     \<and> movie c \<noteq> None \<and> selectedQuality c = Some sq \<and> sq \<noteq> ''''"
  by (auto simp: handleRefreshLink_begin_def split: option.splits if_splits)

lemma handleRefreshLink_begin_refreshing:
  "isRefreshing c \<Longrightarrow> handleRefreshLink_begin c s = None"
  by (simp add: handleRefreshLink_begin_def split: option.splits)

lemma handleRefreshLink_settled_clears:
  "\<not> isRefreshing (fst (handleRefreshLink_settled mid sq pr fr hp s))"
  by (simp add: handleRefreshLink_settled_def Let_def
      split: post_result.splits fetch_result.splits option.splits)

lemma handleQualitySelect_flags:
  "isRefreshing (fst (handleQualitySelect s label r hp pl)) = isRefreshing s"
  by (simp add: handleQualitySelect_def handleQualitySelect_begin_def
      handleQualitySelect_fetched_def handleQualitySelect_played_def Let_def case_prod_beta
      fetchMovieData_flags handleVideoError_flags split: option.splits)

lemma handleQualitySelect_error:
  "playbackError (fst (handleQualitySelect s label r hp pl)) \<Longrightarrow>
     playbackError s \<or> \<not> isRefreshing s"
  by (auto simp: handleQualitySelect_def handleQualitySelect_begin_def
      handleQualitySelect_fetched_def handleQualitySelect_played_def Let_def case_prod_beta
      handleVideoError_def fetchMovieData_flags split: option.splits if_splits)

lemma step_flags_ok: "flags_ok p \<Longrightarrow> flags_ok (step e p)"
proof (cases e)
  case (MovieIdChanges newId r)
  then show "flags_ok p \<Longrightarrow> flags_ok (step e p)"
    by (auto simp: flags_ok_def movieIdEffect_def Let_def fetchMovieData_flags)
next
  case PlayerReportsError
  then show "flags_ok p \<Longrightarrow> flags_ok (step e p)"
    using handleVideoError_flags(4) [of "ui p" "ui p"]
    by (auto simp: flags_ok_def handleVideoError_flags)
next
  case RefreshClicked
  then show "flags_ok p \<Longrightarrow> flags_ok (step e p)"
    by (auto simp: flags_ok_def split: option.splits dest!: handleRefreshLink_begin_Some)
next
  case (RefreshSettles pr fr hp)
  then show "flags_ok p \<Longrightarrow> flags_ok (step e p)"
    by (auto simp: flags_ok_def handleRefreshLink_settled_clears split: option.splits)
next
  case (QualityPicked label r hp pl)
  then show "flags_ok p \<Longrightarrow> flags_ok (step e p)"
    using handleQualitySelect_error [of "ui p" label r hp pl]
    by (auto simp: flags_ok_def handleQualitySelect_flags)
next
  case PlayerClosed
  then show "flags_ok p \<Longrightarrow> flags_ok (step e p)"
    by (auto simp: flags_ok_def handleClosePlayer_def)
next
  case (DialogOpenChanges b)
  then show "flags_ok p \<Longrightarrow> flags_ok (step e p)"
    by (auto simp: flags_ok_def setShowPlayer_def)
qed

lemma run_flags_ok: "flags_ok p \<Longrightarrow> flags_ok (run es p)"
  by (induction es arbitrary: p) (simp_all add: step_flags_ok)

lemma mounted_flags_ok: "flags_ok mounted"
  by (simp add: flags_ok_def mounted_def initial_state_def)

section \<open>The claims about the detail page\<close>

lemma handleQualitySelect_present:
  assumes "movie s = Some m" "find_quality label m = Some qd"
    and "movieId s = Some mid" "mid \<noteq> ''''"
  shows "snd (handleQualitySelect s label r hasPlayer playResolves) =
           GetMovieById mid True # (if hasPlayer then [PlayerSrc (url qd), PlayerLoad, PlayerPlay] else [])"
    and "showPlayer (fst (handleQualitySelect s label r hasPlayer playResolves))"
    and "truthy (selectedQuality s) \<Longrightarrow>
           selectedQuality (fst (handleQualitySelect s label r hasPlayer playResolves)) = Some label"
    and "playbackError (fst (handleQualitySelect s label r hasPlayer playResolves)) =
           (hasPlayer \<and> \<not> playResolves \<and> truthy (selectedQuality s) \<and> \<not> isRefreshing s)"
  using assms
  by (auto simp: handleQualitySelect_def handleQualitySelect_begin_def
      handleQualitySelect_fetched_def handleQualitySelect_played_def handleVideoError_def
      fetchMovieData_def fetchMovieData_settled_def Let_def case_prod_beta
      split: option.splits fetch_result.splits)

text \<open>
  Claim C1. Picking a label of the current record sets \<open>selectedQuality\<close>, clears
  \<open>playbackError\<close>, issues one force-refresh fetch and, with a live player, loads the
  newly fetched record's URL for that label. At the input below the page shows
  \<open>movie_v1\<close>, whose 1080p URL is \<open>b\<close>; the user picks 1080p and the fetch returns
  \<open>movie_v2\<close>, whose 1080p URL is \<open>x\<close>. The one fetch is issued and the record is
  replaced, so the rendered player is given \<open>x\<close>; the handler itself loads \<open>b\<close>, the
  URL of the record it was created with.
\<close>

theorem handleQualitySelect_loads_url_of_old_record:
  "snd (handleQualitySelect (loaded\<lparr>showPlayer := True\<rparr>) ''1080p'' (FetchReturns (Some movie_v2)) True True)
     = [GetMovieById ''m1'' True, PlayerSrc ''b'', PlayerLoad, PlayerPlay]
   \<and> movie (fst (handleQualitySelect (loaded\<lparr>showPlayer := True\<rparr>) ''1080p'' (FetchReturns (Some movie_v2)) True True))
     = Some movie_v2
   \<and> find_quality ''1080p'' movie_v2 = Some \<lparr>quality = ''1080p'', url = ''x''\<rparr>
   \<and> getSelectedQualityUrl (fst (handleQualitySelect (loaded\<lparr>showPlayer := True\<rparr>) ''1080p'' (FetchReturns (Some movie_v2)) True True))
     = ''x''"
  by (simp add: handleQualitySelect_def handleQualitySelect_begin_def
      handleQualitySelect_fetched_def handleQualitySelect_played_def fetchMovieData_def
      fetchMovieData_settled_def getSelectedQualityUrl_def find_quality_def truthy_def
      loaded_def movie_v1_def movie_v2_def Let_def)

text \<open>
  Claim C2, as stated: every failure of the manual refresh, the selected quality
  missing from the refetched record included, leaves \<open>playbackError\<close> set. It fails:
  the refresh endpoint answers with a new URL, the refetched record has no 1080p
  variant, and \<open>playbackError\<close> ends cleared.
\<close>

theorem handleRefreshLink_missing_quality_no_error:
  "find_quality ''1080p'' movie_without_1080p = None
   \<and> \<not> playbackError (fst (handleRefreshLink failed refresh_ok (FetchReturns (Some movie_without_1080p)) True))
   \<and> snd (handleRefreshLink failed refresh_ok (FetchReturns (Some movie_without_1080p)) True)
       = [PostRefreshLink ''m1'' ''1080p'', GetMovieById ''m1'' True]"
  by (simp add: handleRefreshLink_def handleRefreshLink_begin_def handleRefreshLink_settled_def
      find_quality_def failed_def watching_def loaded_def refresh_ok_def movie_v1_def
      movie_without_1080p_def Let_def)

text \<open>
  Claim C2, amended. A run of the manual refresh that passes its guard (a record is
  loaded, a quality is selected, no refresh is in flight) ends with \<open>isRefreshing\<close>
  cleared whatever the answers are; and when the post is rejected (network error or a
  status outside 2xx), or the refetch throws, it ends with \<open>playbackError\<close> set.
\<close>

theorem handleRefreshLink_thrown_failure:
  assumes "movie s = Some m" and "truthy (selectedQuality s)" and "\<not> isRefreshing s"
  shows "\<not> isRefreshing (fst (handleRefreshLink s pr fr hasPlayer))
       \<and> ((pr = NetworkError \<or> (\<exists>status detail. pr = HttpError status detail)
            \<or> (\<exists>res. pr = PostOk res \<and> new_url res \<noteq> '''' \<and> fr = FetchThrows))
          \<longrightarrow> playbackError (fst (handleRefreshLink s pr fr hasPlayer)))"
  using assms
  by (auto simp: handleRefreshLink_def handleRefreshLink_begin_def handleRefreshLink_settled_def
      truthy_def Let_def split: option.splits post_result.splits fetch_result.splits)

theorem handleRefreshLink_thrown_failure_witness:
  "\<not> isRefreshing (fst (handleRefreshLink failed (HttpError 400 (Some ''Quality not available'')) FetchThrows True))
   \<and> playbackError (fst (handleRefreshLink failed (HttpError 400 (Some ''Quality not available'')) FetchThrows True))"
proof -
  have m: "movie failed = Some movie_v1" by (simp add: failed_def watching_def loaded_def)
  have q: "truthy (selectedQuality failed)"
    by (simp add: failed_def watching_def loaded_def truthy_def)
  have r: "\<not> isRefreshing failed" by (simp add: failed_def watching_def loaded_def)
  from handleRefreshLink_thrown_failure [OF m q r, of "HttpError 400 (Some ''Quality not available'')" FetchThrows True]
  show ?thesis by simp
qed

lemma find_first:
  "P x \<Longrightarrow> \<forall>y \<in> set pre. \<not> P y \<Longrightarrow> find P (pre @ x # post) = Some x"
  by (induction pre) simp_all

lemma find_quality_first:
  assumes "video_qualities m = pre @ fq # post" and "quality fq = label"
    and "label \<notin> quality ` set pre"
  shows "find_quality label m = Some fq"
proof -
  from assms(3) have "\<forall>y \<in> set pre. \<not> quality y = label" by auto
  with assms(2) show ?thesis
    unfolding find_quality_def assms(1) by (intro find_first) simp_all
qed

lemma find_quality_unique:
  assumes "distinct (map quality (video_qualities m))" and "fq \<in> set (video_qualities m)"
    and "quality fq = label"
  shows "find_quality label m = Some fq"
proof -
  from assms(2) obtain pre post where sp: "video_qualities m = pre @ fq # post"
    by (auto simp: in_set_conv_decomp)
  from assms(1) have "quality fq \<notin> quality ` set pre" unfolding sp by auto
  with sp assms(3) show ?thesis by (intro find_quality_first) auto
qed




text \<open>
  Claim C4, as stated: when the content identifier changes, the selected quality, the
  player-visible flag, the refreshing flag and the playback-error flag are reset
  before the new record is handled. It fails: the page shows 1080p of \<open>m1\<close> in the
  open player after a playback error; the route changes to \<open>m2\<close>, whose record has
  a 480p variant only. The new record is stored, and the selection, the open player and
  the error flag are as before.
\<close>

theorem movieIdEffect_resets_nothing:
  "movie (fst (movieIdEffect (Some ''m2'') (FetchReturns (Some movie_other)) failed)) = Some movie_other
   \<and> selectedQuality (fst (movieIdEffect (Some ''m2'') (FetchReturns (Some movie_other)) failed)) = Some ''1080p''
   \<and> showPlayer (fst (movieIdEffect (Some ''m2'') (FetchReturns (Some movie_other)) failed))
   \<and> playbackError (fst (movieIdEffect (Some ''m2'') (FetchReturns (Some movie_other)) failed))
   \<and> find_quality ''1080p'' movie_other = None"
  by (simp add: movieIdEffect_def fetchMovieData_def fetchMovieData_settled_def truthy_def
      find_quality_def failed_def watching_def loaded_def movie_other_def Let_def)

text \<open>
  Claim C4, amended. A change of the content identifier only fetches the record of
  the new identifier, without the force flag: the player-visible flag, the refreshing
  flag and the playback-error flag keep their values whatever the fetch returns, and a
  selected quality that is not empty is kept.
\<close>

theorem movieIdEffect_keeps_transient_state:
  "showPlayer (fst (movieIdEffect newId r s)) = showPlayer s
   \<and> isRefreshing (fst (movieIdEffect newId r s)) = isRefreshing s
   \<and> playbackError (fst (movieIdEffect newId r s)) = playbackError s
   \<and> (truthy (selectedQuality s) \<longrightarrow> selectedQuality (fst (movieIdEffect newId r s)) = selectedQuality s)
   \<and> (\<forall>mid. newId = Some mid \<and> mid \<noteq> '''' \<longrightarrow> snd (movieIdEffect newId r s) = [GetMovieById mid False])"
  by (simp add: movieIdEffect_def Let_def fetchMovieData_flags fetchMovieData_selectedQuality
      fetchMovieData_effects)

theorem movieIdEffect_keeps_transient_state_witness:
  "truthy (selectedQuality watching)
   \<and> selectedQuality (fst (movieIdEffect (Some ''m2'') (FetchReturns (Some movie_other)) watching)) = Some ''1080p''
   \<and> showPlayer (fst (movieIdEffect (Some ''m2'') (FetchReturns (Some movie_other)) watching))
   \<and> snd (movieIdEffect (Some ''m2'') (FetchReturns (Some movie_other)) watching) = [GetMovieById ''m2'' False]"
proof -
  have q: "truthy (selectedQuality watching)" by (simp add: watching_def loaded_def truthy_def)
  have v: "selectedQuality watching = Some ''1080p''" "showPlayer watching"
    by (simp_all add: watching_def loaded_def)
  from movieIdEffect_keeps_transient_state [of "Some ''m2''" "FetchReturns (Some movie_other)" watching] q v
  show ?thesis by simp
qed

text \<open>
  Claim C5, as stated: when the player invokes the playback-error callback,
  \<open>playbackError\<close> becomes true. It fails while a refresh is in flight: the callback
  returns at its guard and \<open>playbackError\<close> stays false.
\<close>

theorem handleVideoError_ignored_while_refreshing:
  "isRefreshing refreshing \<and> movie refreshing = Some movie_v1
   \<and> \<not> playbackError (handleVideoError refreshing refreshing)"
  by (simp add: handleVideoError_def refreshing_def watching_def loaded_def)

text \<open>
  Claim C5, amended. When the player invokes the playback-error callback while a
  record is loaded, a quality is selected and no refresh is in flight, \<open>playbackError\<close>
  becomes true, and on the page as rendered (not loading, no load error) the refresh
  button is shown and enabled; in every other state the callback changes nothing.
  Invoking the refresh action while a refresh is in flight changes no state and issues
  no request.
\<close>

theorem handleVideoError_and_refresh_guard:
  "(movie s \<noteq> None \<and> truthy (selectedQuality s) \<and> \<not> isRefreshing s \<longrightarrow>
       handleVideoError s s = s\<lparr>playbackError := True\<rparr>
     \<and> (\<not> isLoading s \<and> error s = None \<longrightarrow>
          refreshButtonShown (handleVideoError s s) \<and> \<not> refreshButtonDisabled (handleVideoError s s)))
   \<and> (movie s = None \<or> \<not> truthy (selectedQuality s) \<or> isRefreshing s \<longrightarrow> handleVideoError s s = s)
   \<and> (isRefreshing s \<longrightarrow> handleRefreshLink s pr fr hasPlayer = (s, []))"
  by (auto simp: handleVideoError_def refreshButtonShown_def refreshButtonDisabled_def
      handleRefreshLink_def handleRefreshLink_begin_refreshing)

theorem handleVideoError_and_refresh_guard_witness:
  "playbackError (handleVideoError watching watching)
   \<and> refreshButtonShown (handleVideoError watching watching)
   \<and> \<not> refreshButtonDisabled (handleVideoError watching watching)
   \<and> handleVideoError refreshing refreshing = refreshing
   \<and> handleRefreshLink refreshing refresh_ok (FetchReturns (Some movie_v2)) True = (refreshing, [])"
proof -
  have w: "movie watching \<noteq> None \<and> truthy (selectedQuality watching) \<and> \<not> isRefreshing watching"
    and l: "\<not> isLoading watching \<and> error watching = None"
    by (simp_all add: watching_def loaded_def truthy_def)
  have r: "isRefreshing refreshing" by (simp add: refreshing_def)
  note at_watching = handleVideoError_and_refresh_guard [of watching refresh_ok "FetchReturns (Some movie_v2)" True]
  note at_refreshing = handleVideoError_and_refresh_guard [of refreshing refresh_ok "FetchReturns (Some movie_v2)" True]
  from at_watching w have e: "handleVideoError watching watching = watching\<lparr>playbackError := True\<rparr>"
    by blast
  have p: "playbackError (handleVideoError watching watching)" by (simp add: e)
  from at_watching w l
  have b: "refreshButtonShown (handleVideoError watching watching)
         \<and> \<not> refreshButtonDisabled (handleVideoError watching watching)"
    by blast
  from at_refreshing r
  have g: "handleVideoError refreshing refreshing = refreshing
         \<and> handleRefreshLink refreshing refresh_ok (FetchReturns (Some movie_v2)) True = (refreshing, [])"
    by blast
  from p b g show ?thesis by blast
qed

text \<open>
  Claim C6. Picking a label that no variant of the current record carries (or picking
  while no record is loaded) changes no field of the state and issues nothing: no
  fetch, no command to the player.
\<close>

theorem handleQualitySelect_absent_label:
  assumes "movie s = None \<or> (\<exists>m. movie s = Some m \<and> label \<notin> quality ` set (video_qualities m))"
  shows "handleQualitySelect s label r hasPlayer playResolves = (s, [])"
proof -
  have "(case movie s of None \<Rightarrow> None | Some m \<Rightarrow> find_quality label m) = None"
    using assms by (auto simp: find_quality_def find_None_iff split: option.splits)
  then show ?thesis
    by (simp add: handleQualitySelect_def handleQualitySelect_begin_def)
qed

theorem handleQualitySelect_absent_label_witness:
  "''4k'' \<notin> quality ` set (video_qualities movie_v1)
   \<and> handleQualitySelect loaded ''4k'' (FetchReturns (Some movie_v2)) True True = (loaded, [])"
proof -
  have a: "''4k'' \<notin> quality ` set (video_qualities movie_v1)" by (simp add: movie_v1_def)
  have m: "movie loaded = Some movie_v1" by (simp add: loaded_def)
  from a m have "movie loaded = None \<or> (\<exists>m. movie loaded = Some m \<and> ''4k'' \<notin> quality ` set (video_qualities m))"
    by simp
  from handleQualitySelect_absent_label [OF this] a show ?thesis by simp
qed




section \<open>The claims about the playback control bar\<close>

text \<open>
  Claim C8, as stated: when the playback-state duration is not greater than 0, the
  effective duration is the record's nominal duration when present. It fails for a
  record whose duration is \<open>NaN\<close>: the effective duration is 0 (and seeking is
  disabled), not the record's duration.
\<close>

theorem effectiveDuration_nominal_NaN:
  "nominalDuration (Some track_nan) = Some NaN
   \<and> effectiveDuration (Fin 0) (Some track_nan) = Fin 0
   \<and> seekDisabled (Fin 0) (Some track_nan)"
  by (simp add: nominalDuration_def effectiveDuration_def seekDisabled_def track_nan_def)

text \<open>
  Claim C8, amended. For every playback-state duration and every record, the
  effective duration is the playback-state duration when that is greater than 0, else
  the record's nominal duration when it is present and not \<open>NaN\<close>, else 0; and the
  seek control is disabled exactly when the effective duration is 0.
\<close>

theorem effectiveDuration_cases:
  "effectiveDuration live currentTrack =
     (if js_greater live 0 then live
      else (case nominalDuration currentTrack of
              None \<Rightarrow> Fin 0
            | Some d \<Rightarrow> if d = NaN then Fin 0 else d))
   \<and> seekDisabled live currentTrack = (effectiveDuration live currentTrack = Fin 0)"
proof -
  have "(if js_falsy d then Fin 0 else d) = (if d = NaN then Fin 0 else d)" for d
    by (cases d) simp_all
  then show ?thesis
    by (simp add: effectiveDuration_def seekDisabled_def split: option.splits)
qed

theorem effectiveDuration_cases_witness:
  "effectiveDuration (Fin 42) (Some track_180) = Fin 42
   \<and> effectiveDuration (Fin 0) (Some track_180) = Fin 180
   \<and> \<not> seekDisabled (Fin 0) (Some track_180)
   \<and> effectiveDuration NaN None = Fin 0
   \<and> seekDisabled NaN None"
  using effectiveDuration_cases [of "Fin 42" "Some track_180"]
    effectiveDuration_cases [of "Fin 0" "Some track_180"]
    effectiveDuration_cases [of NaN None]
  by (simp add: nominalDuration_def track_180_def track_nan_def)

section \<open>Printing a time\<close>












text \<open>
  Why the exact quotient may stand for the rounded one: for a binary64 value \<open>r\<close>
  with \<open>0 \<le> r \<le> 2^53\<close>, no binary64 value nearest to \<open>r / 60\<close> reaches the next
  integer or falls under the last one.
\<close>

lemma binary64_of_int: "\<bar>n\<bar> < 2 ^ 53 \<Longrightarrow> binary64 (of_int n)"
  unfolding binary64_def by (rule exI [of _ n], rule exI [of _ 0]) simp

lemma floor_nearest_quotient:
  assumes r64: "binary64 r" and r0: "0 \<le> r" and r53: "r \<le> 2 ^ 53"
    and near: "nearest64 (r / 60) z"
  shows "\<lfloor>z\<rfloor> = \<lfloor>r / 60\<rfloor>"
proof -
  define q where "q = r / 60"
  define k where "k = \<lfloor>q\<rfloor>"
  have kq: "of_int k \<le> q" "q < of_int k + 1" unfolding k_def by linarith+
  have k0: "0 \<le> k" using r0 unfolding k_def q_def by simp
  have qb: "q \<le> 2 ^ 53 / 60" using r53 unfolding q_def by simp
  have "(2 ^ 53 / 60 :: real) < of_int (2 ^ 48 - 1)" by simp
  with kq(1) qb have "(of_int k :: real) < of_int (2 ^ 48 - 1)" by linarith
  then have kb: "k < 2 ^ 48 - 1" by (simp only: of_int_less_iff)
  have z64: "binary64 z" and best: "\<And>y. binary64 y \<Longrightarrow> \<bar>z - q\<bar> \<le> \<bar>y - q\<bar>"
    using near unfolding nearest64_def q_def by auto
  have "binary64 (of_int k)" by (rule binary64_of_int) (use k0 kb in simp)
  from best [OF this] kq have low: "of_int k \<le> z" by linarith
  define K where "K = k + 1"
  have K1: "1 \<le> K" and K47: "K < 2 ^ 48" using k0 kb unfolding K_def by simp_all
  have qK: "q < of_int K" using kq(2) unfolding K_def by simp
  define N where "N = nat K"
  have N1: "1 \<le> N" and N48: "N < 2 ^ 48" using K1 K47 unfolding N_def by simp_all
  have KN: "(of_int K :: real) = real N" using K1 unfolding N_def by simp
  have "\<exists>n. 2 ^ n \<le> N \<and> N < 2 ^ (n + 1)"
    by (rule ex_power_ivl1) (use N1 in simp_all)
  then obtain j where j: "2 ^ j \<le> N" "N < 2 ^ (j + 1)" by blast
  have j47: "j \<le> 47"
  proof (rule ccontr)
    assume "\<not> j \<le> 47"
    then have "48 \<le> j" by simp
    then have "(2::nat) ^ 48 \<le> 2 ^ j" by (intro power_increasing) simp_all
    with j(1) N48 show False by simp
  qed
  define d where "d = 47 - j"
  define P :: real where "P = 2 ^ d"
  define Q :: real where "Q = 2 ^ j"
  have dj: "d + j = 47" using j47 unfolding d_def by simp
  have PQ: "P * Q = 2 ^ 47" unfolding P_def Q_def power_add [symmetric] dj ..
  have P1: "1 \<le> P" unfolding P_def by simp
  have Q1: "1 \<le> Q" unfolding Q_def by simp
  have "real (2 ^ j) \<le> real N" "real N < real (2 ^ (j + 1))"
    using j by (simp_all only: of_nat_le_iff of_nat_less_iff)
  then have QK: "Q \<le> of_int K" "of_int K < 2 * Q"
    unfolding KN Q_def by simp_all
  have P0: "0 < P" using P1 by simp
  have pw: "(2::real) powi (- (int d + 5)) = 1 / (32 * P)"
  proof -
    have "(2::real) powi (int d + 5) = 2 powi int d * 2 powi 5"
      by (rule power_int_add) simp
    also have "\<dots> = 32 * P" unfolding P_def by (simp add: power_int_of_nat)
    finally have a: "(2::real) powi (int d + 5) = 32 * P" .
    have "(2::real) powi (- (int d + 5)) = 1 / 2 powi (int d + 5)"
      by (rule power_int_minus_divide)
    also have "\<dots> = 1 / (32 * P)" by (simp only: a)
    finally show ?thesis .
  qed
  define y where "y = of_int K - 1 / (32 * P)"
  have y64: "binary64 y"
  proof -
    have "of_int (K * 32 * 2 ^ d - 1) * (1 / (32 * P)) = (of_int K * 32 * P - 1) / (32 * P)"
      unfolding P_def by simp
    also have "\<dots> = y" using P0 unfolding y_def by (simp add: field_simps)
    finally have eq: "y = of_int (K * 32 * 2 ^ d - 1) * 2 powi (- (int d + 5))"
      unfolding pw by simp
    have Kj: "K < 2 * 2 ^ j"
    proof -
      have "int N < int (2 ^ (j + 1))" using j(2) by (simp only: of_nat_less_iff)
      then show ?thesis using K1 unfolding N_def by simp
    qed
    have "(2::int) ^ j * 2 ^ d = 2 ^ 47"
      unfolding power_add [symmetric] using dj by (simp add: add.commute)
    then have e53: "(2 * 2 ^ j) * (32 * 2 ^ d) = (2::int) ^ 53" by simp
    have "K * (32 * 2 ^ d) < (2 * 2 ^ j) * (32 * 2 ^ d)"
      by (rule mult_strict_right_mono [OF Kj]) simp
    then have up: "K * 32 * 2 ^ d < 2 ^ 53" unfolding e53 by (simp add: mult.assoc)
    have "(1::int) \<le> 2 ^ d" by simp
    then have "(1::int) \<le> 32 * 2 ^ d" by linarith
    with K1 have "1 * 1 \<le> K * (32 * 2 ^ d)" by (intro mult_mono) simp_all
    then have lo: "0 \<le> K * 32 * 2 ^ d - 1" by (simp add: mult.assoc)
    from up lo have mag: "\<bar>K * 32 * 2 ^ d - 1\<bar> < 2 ^ 53" by simp
    have e1: "- 1074 \<le> - (int d + 5)" using dj by simp
    have e2: "- (int d + 5) \<le> 971" by simp
    from eq mag e1 e2 show ?thesis unfolding binary64_def by blast
  qed
  have rK: "r < 60 * of_int K" using qK unfolding q_def by simp
  have gap: "30 / (32 * P) < 60 * of_int K - r"
  proof (cases "r \<le> 32 * Q")
    case True
    have "30 / (32 * P) \<le> 30 / 32" using P1 by (simp add: field_simps)
    also have "\<dots> < 28 * Q" using Q1 by simp
    also have "\<dots> \<le> 60 * of_int K - r" using True QK(1) by simp
    finally show ?thesis .
  next
    case False
    then have big: "32 * Q < r" by simp
    from r64 obtain m e :: int where me: "r = of_int m * 2 powi e" "\<bar>m\<bar> < 2 ^ 53"
      unfolding binary64_def by blast
    have ed: "0 \<le> e + int d"
    proof (rule ccontr)
      assume "\<not> 0 \<le> e + int d"
      then have "e \<le> - (int d + 1)" by simp
      then have "(2::real) powi e \<le> 2 powi (- (int d + 1))" by (intro power_int_increasing) simp_all
      also have "(2::real) powi (- (int d + 1)) = 1 / (2 * P)"
      proof -
        have "(2::real) powi (int d + 1) = 2 powi int d * 2 powi 1"
          by (rule power_int_add) simp
        also have "\<dots> = 2 * P" unfolding P_def by (simp add: power_int_of_nat)
        finally have a: "(2::real) powi (int d + 1) = 2 * P" .
        have "(2::real) powi (- (int d + 1)) = 1 / 2 powi (int d + 1)"
          by (rule power_int_minus_divide)
        also have "\<dots> = 1 / (2 * P)" by (simp only: a)
        finally show ?thesis .
      qed
      finally have pe: "(2::real) powi e \<le> 1 / (2 * P)" .
      have pe0: "0 < (2::real) powi e" by simp
      have "\<bar>real_of_int m\<bar> < 2 ^ 53" using me(2) by (metis of_int_abs of_int_less_numeral_power_cancel_iff)
      have "r \<le> \<bar>real_of_int m\<bar> * 2 powi e" unfolding me(1) using pe0 by (simp add: mult_right_mono)
      also have "\<dots> \<le> \<bar>real_of_int m\<bar> * (1 / (2 * P))"
        by (rule mult_left_mono [OF pe]) simp
      also have "\<dots> < 2 ^ 53 * (1 / (2 * P))" using \<open>\<bar>real_of_int m\<bar> < 2 ^ 53\<close> P0 by (simp add: field_simps)
      also have "\<dots> = 32 * Q" using PQ P0 by (simp add: field_simps)
      finally show False using big by simp
    qed
    define t where "t = nat (e + int d)"
    have "r * P = of_int m * (2 powi e * 2 powi int d)" unfolding me(1) P_def by (simp add: power_int_of_nat)
    also have "2 powi e * 2 powi int d = (2::real) powi (e + int d)" by (rule power_int_add [symmetric]) simp
    also have "\<dots> = 2 ^ t" using ed unfolding t_def by (simp add: power_int_def)
    finally have rP: "r * P = of_int (m * 2 ^ t)" by simp
    have KP: "60 * of_int K * P = of_int (60 * K * 2 ^ d)" unfolding P_def by simp
    have "r * P < 60 * of_int K * P" using rK P0 by simp
    then have "m * 2 ^ t < 60 * K * 2 ^ d" unfolding rP KP by (simp only: of_int_less_iff)
    then have "m * 2 ^ t + 1 \<le> 60 * K * 2 ^ d" by simp
    then have "real_of_int (m * 2 ^ t + 1) \<le> real_of_int (60 * K * 2 ^ d)" by (simp only: of_int_le_iff)
    then have "r * P + 1 \<le> 60 * of_int K * P" unfolding KP rP by simp
    then have "1 \<le> (60 * of_int K - r) * P" by (simp add: algebra_simps)
    then have "1 / P \<le> 60 * of_int K - r" using P0 by (simp add: field_simps)
    moreover have "30 / (32 * P) < 1 / P" using P0 by (simp add: field_simps)
    ultimately show ?thesis by linarith
  qed
  define dl where "dl = 1 / (32 * P)"
  have dpos: "0 < dl" using P0 unfolding dl_def by simp
  have "(30 / (32 * P)) / 60 < (60 * of_int K - r) / 60" using gap by simp
  then have half: "dl / 2 < of_int K - q" unfolding q_def dl_def by (simp add: field_simps)
  have yd: "y = of_int K - dl" unfolding y_def dl_def ..
  have "\<bar>y - q\<bar> < of_int K - q" unfolding yd using dpos half by linarith
  with best [OF y64] have "z < of_int K" by linarith
  with low have "\<lfloor>z\<rfloor> = k" unfolding K_def by linarith
  then show ?thesis unfolding k_def q_def .
qed

lemma nearest64_exact: "binary64 x \<Longrightarrow> nearest64 x x"
  by (simp add: nearest64_def)

text \<open>
  The floor the model takes of \<open>x / 60\<close> is the floor of every binary64 value nearest
  to the exact quotient, for every binary64 \<open>x\<close> the model gives the division a value
  for.
\<close>

lemma js_divide_60_floor:
  assumes "binary64 r" and "0 \<le> r" and "r \<le> 2 ^ 53" and "nearest64 (r / 60) z"
  shows "map_option Math_floor (js_divide_60 (Fin r)) = Some (Math_floor (Fin z))"
  using floor_nearest_quotient [OF assms] assms(2,3) by simp






section \<open>The two flags of a refresh\<close>

text \<open>
  Claim C10, as stated: a playback-error callback arriving while a refresh is in
  flight is ignored, so the refreshing flag and the playback-error flag are never both
  true after a handler completes. It fails when a quality pick overlaps the start of
  a refresh. With 720p playing, the user picks 1080p, and the pick waits for its fetch;
  the player reports an error, which sets \<open>playbackError\<close>; the user clicks the refresh
  button, which sets \<open>isRefreshing\<close> and posts; the pick's fetch returns and its
  \<open>player.play()\<close> rejects. The pick then calls the \<open>handleVideoError\<close> of its own render,
  in which \<open>isRefreshing\<close> is false, and \<open>playbackError\<close> is set while the refresh is
  still in flight. The pick has completed and both flags are true.
\<close>

theorem overlapping_pick_sets_both_flags:
  "isRefreshing (ui (base (overlap_run
      [Whole (MovieIdChanges (Some ''m1'') (FetchReturns (Some movie_v1))),
       Whole (QualityPicked ''720p'' (FetchReturns (Some movie_v1)) False True),
       PickBegins ''1080p'',
       Whole PlayerReportsError,
       Whole RefreshClicked,
       PickFetched 0 (FetchReturns (Some movie_v2)) True,
       PickPlayed 0 False]
      \<lparr>base = mounted, picks = []\<rparr>)))
   \<and> playbackError (ui (base (overlap_run
      [Whole (MovieIdChanges (Some ''m1'') (FetchReturns (Some movie_v1))),
       Whole (QualityPicked ''720p'' (FetchReturns (Some movie_v1)) False True),
       PickBegins ''1080p'',
       Whole PlayerReportsError,
       Whole RefreshClicked,
       PickFetched 0 (FetchReturns (Some movie_v2)) True,
       PickPlayed 0 False]
      \<lparr>base = mounted, picks = []\<rparr>)))
   \<and> refreshInFlight (base (overlap_run
      [Whole (MovieIdChanges (Some ''m1'') (FetchReturns (Some movie_v1))),
       Whole (QualityPicked ''720p'' (FetchReturns (Some movie_v1)) False True),
       PickBegins ''1080p'',
       Whole PlayerReportsError,
       Whole RefreshClicked,
       PickFetched 0 (FetchReturns (Some movie_v2)) True,
       PickPlayed 0 False]
      \<lparr>base = mounted, picks = []\<rparr>)) = Some (''m1'', ''1080p'')
   \<and> picks (overlap_run
      [Whole (MovieIdChanges (Some ''m1'') (FetchReturns (Some movie_v1))),
       Whole (QualityPicked ''720p'' (FetchReturns (Some movie_v1)) False True),
       PickBegins ''1080p'',
       Whole PlayerReportsError,
       Whole RefreshClicked,
       PickFetched 0 (FetchReturns (Some movie_v2)) True,
       PickPlayed 0 False]
      \<lparr>base = mounted, picks = []\<rparr>) = []"
  by (simp add: mounted_def initial_state_def movieIdEffect_def fetchMovieData_def
      fetchMovieData_settled_def firstQuality_def truthy_def find_quality_def
      handleQualitySelect_def handleQualitySelect_begin_def handleQualitySelect_fetched_def
      handleQualitySelect_played_def handleVideoError_def handleRefreshLink_begin_def
      drop_nth_def movie_v1_def movie_v2_def Let_def)

text \<open>
  Claim C10, amended. A playback-error callback that the player delivers while a
  refresh is in flight is ignored: \<open>isRefreshing\<close> is set, \<open>playbackError\<close> is false and
  stays false. And when every handler other than the refresh runs from its start to
  its finish before the next event, then after every event the refreshing flag and the
  playback-error flag are not both true.
\<close>

theorem refresh_and_error_exclusive:
  "(refreshInFlight (run es mounted) \<noteq> None \<longrightarrow>
       isRefreshing (ui (run es mounted)) \<and> \<not> playbackError (ui (run es mounted))
     \<and> step PlayerReportsError (run es mounted) = run es mounted)
   \<and> \<not> (isRefreshing (ui (run es mounted)) \<and> playbackError (ui (run es mounted)))"
proof -
  have ok: "flags_ok (run es mounted)" by (rule run_flags_ok [OF mounted_flags_ok])
  then show ?thesis
    by (auto simp: flags_ok_def handleVideoError_flags)
qed

theorem refresh_and_error_exclusive_witness:
  "refreshInFlight (run [MovieIdChanges (Some ''m1'') (FetchReturns (Some movie_v1)),
                         QualityPicked ''1080p'' (FetchReturns (Some movie_v1)) False True,
                         PlayerReportsError, RefreshClicked] mounted) = Some (''m1'', ''1080p'')
   \<and> isRefreshing (ui (run [MovieIdChanges (Some ''m1'') (FetchReturns (Some movie_v1)),
                         QualityPicked ''1080p'' (FetchReturns (Some movie_v1)) False True,
                         PlayerReportsError, RefreshClicked] mounted))
   \<and> \<not> playbackError (ui (run [MovieIdChanges (Some ''m1'') (FetchReturns (Some movie_v1)),
                         QualityPicked ''1080p'' (FetchReturns (Some movie_v1)) False True,
                         PlayerReportsError, RefreshClicked] mounted))
   \<and> step PlayerReportsError (run [MovieIdChanges (Some ''m1'') (FetchReturns (Some movie_v1)),
                         QualityPicked ''1080p'' (FetchReturns (Some movie_v1)) False True,
                         PlayerReportsError, RefreshClicked] mounted)
       = run [MovieIdChanges (Some ''m1'') (FetchReturns (Some movie_v1)),
                         QualityPicked ''1080p'' (FetchReturns (Some movie_v1)) False True,
                         PlayerReportsError, RefreshClicked] mounted"
proof -
  have f: "refreshInFlight (run [MovieIdChanges (Some ''m1'') (FetchReturns (Some movie_v1)),
                         QualityPicked ''1080p'' (FetchReturns (Some movie_v1)) False True,
                         PlayerReportsError, RefreshClicked] mounted) = Some (''m1'', ''1080p'')"
    by (simp add: mounted_def initial_state_def movieIdEffect_def fetchMovieData_def
        fetchMovieData_settled_def firstQuality_def truthy_def find_quality_def
        handleQualitySelect_def handleQualitySelect_begin_def handleQualitySelect_fetched_def
        handleQualitySelect_played_def handleVideoError_def handleRefreshLink_begin_def
        movie_v1_def Let_def)
  from refresh_and_error_exclusive [of "[MovieIdChanges (Some ''m1'') (FetchReturns (Some movie_v1)),
                         QualityPicked ''1080p'' (FetchReturns (Some movie_v1)) False True,
                         PlayerReportsError, RefreshClicked]"] f
  show ?thesis by simp
qed

end
